theory Spec2Isabelle
  imports Main "HOL-Library.Word"
begin

section \<open>The conversion script \<^verbatim>\<open>volta_accelerate.py\<close>\<close>

text \<open>
  The script is orchestration over libraries it does not implement: a model loader,
  a tracer and graph exporter, a precision converter and an engine builder. The
  embedding keeps every statement of the script and takes what the libraries and the
  operating system decide as fields of an environment record \<open>env\<close>; a theorem
  that quantifies over \<open>env\<close> holds whatever those libraries answer. The file
  system and the two output streams are an explicit \<open>world\<close> value that every
  effectful function takes and returns, also when it raises. Object constructors of the
  engine toolkit (logger, builder, network, parser, configuration, profile), the queries
  \<^verbatim>\<open>torch.cuda.is_available\<close> and \<^verbatim>\<open>os.path.exists\<close>, and
  the clean-up calls at the end of the exporter are taken to return normally; exhaustion
  of memory is not modelled.
\<close>

subsection \<open>Python values and exceptions\<close>

text \<open>
  The values the two untyped command-line flags can hold: an integer, a string (read as
  its sequence of characters) or a tuple.
\<close>

datatype pyval = PInt int | PStr string | PTuple "pyval list"

datatype exit_arg = ExitCode int | ExitMsg string

datatype error =
    TypeError
  | IndexError
  | RuntimeError
  | OSError
  | LibraryError string
  | SystemExit exit_arg

text \<open>\<^verbatim>\<open>v[i]\<close> for a literal index \<open>i \<ge> 0\<close>.\<close>

fun py_index :: "pyval \<Rightarrow> nat \<Rightarrow> error + pyval" where
  "py_index (PTuple xs) i = (if i < length xs then Inr (xs ! i) else Inl IndexError)"
| "py_index (PStr s) i = (if i < length s then Inr (PStr [s ! i]) else Inl IndexError)"
| "py_index (PInt n) i = Inl TypeError"

text \<open>\<^verbatim>\<open>v // d\<close> for a literal integer \<open>d\<close> other than zero: floor division.\<close>

fun py_floordiv :: "pyval \<Rightarrow> int \<Rightarrow> error + pyval" where
  "py_floordiv (PInt n) d = Inr (PInt (n div d))"
| "py_floordiv (PStr s) d = Inl TypeError"
| "py_floordiv (PTuple xs) d = Inl TypeError"

fun int_of_pyval :: "pyval \<Rightarrow> int option" where
  "int_of_pyval (PInt n) = Some n"
| "int_of_pyval (PStr s) = None"
| "int_of_pyval (PTuple xs) = None"

text \<open>A tuple of sizes as the libraries read it: every component must be an integer.\<close>

fun to_ints :: "pyval list \<Rightarrow> int list option" where
  "to_ints [] = Some []"
| "to_ints (v # vs) =
     (case int_of_pyval v of
        None \<Rightarrow> None
      | Some n \<Rightarrow> (case to_ints vs of None \<Rightarrow> None | Some ns \<Rightarrow> Some (n # ns)))"

subsection \<open>Run configuration\<close>

record args =
  model_path :: string
  save_path :: string
  batch_size :: int
  img_size :: pyval
  max_seq_length :: pyval
  max_gpu_memory :: int
  onnx_trt :: string

subsection \<open>Files, streams and library objects\<close>

type_synonym path = string
type_synonym bytes = "8 word list"

datatype device = Cpu | Cuda

text \<open>
  A tensor is kept as the call that made it. \<open>RandTensor k sizes dev\<close> is the
  \<open>k\<close>-th draw of \<^verbatim>\<open>torch.rand(*sizes, device=dev)\<close> in the run.
\<close>

datatype tensor =
    RandTensor nat "int list" device
  | LongTensor "int list" device
  | BoolTensor bool device

text \<open>
  A graph file declares named inputs and outputs with an element type each (the
  interchange format's integer type code); the rest of the graph is opaque.
\<close>

record onnx_model =
  graph_inputs :: "(string \<times> nat) list"
  graph_outputs :: "(string \<times> nat) list"
  graph_body :: nat

datatype content = Graph onnx_model | Blob bytes

record world =
  files :: "path \<rightharpoonup> content"
  dirs :: "path set"
  stdout_buf :: "string list"
  stdout :: "string list"
  stderr :: "string list"

record export_opts =
  export_params :: bool
  opset_version :: nat
  do_constant_folding :: bool
  input_names :: "string list"
  output_names :: "string list"
  dynamic_axes :: "(string \<times> nat list) list"

datatype memory_pool_type = WORKSPACE
datatype builder_flag = FP16

text \<open>An optimization profile: for each input name the minimum, optimum and maximum shape.\<close>

type_synonym opt_profile = "(string \<times> int list \<times> int list \<times> int list) list"

record builder_config =
  optimization_profiles :: "opt_profile list"
  memory_pool_limits :: "(memory_pool_type \<times> int) list"
  builder_flags :: "builder_flag list"

text \<open>
  What the script does not decide. \<open>resolve\<close> is the operating system's reading of
  a path (two spellings of one file resolve alike); loaded networks, traced modules and
  parsed networks are opaque handles.
\<close>

record env =
  int_of_str :: "string \<Rightarrow> int option"
  cuda_is_available :: bool
  from_pretrained :: "string \<Rightarrow> string \<Rightarrow> bool \<Rightarrow> error + nat"
  to_device :: "nat \<Rightarrow> device \<Rightarrow> error + nat"
  resolve :: "path \<Rightarrow> path"
  may_mkdir :: "world \<Rightarrow> path \<Rightarrow> bool"
  may_write :: "world \<Rightarrow> path \<Rightarrow> bool"
  jit_trace :: "nat \<Rightarrow> tensor list \<Rightarrow> tensor list list \<Rightarrow> bool \<Rightarrow> error + nat"
  onnx_export :: "nat \<Rightarrow> tensor list \<Rightarrow> export_opts \<Rightarrow> error + onnx_model"
  convert_float_to_float16 :: "onnx_model \<Rightarrow> bool \<Rightarrow> error + onnx_model"
  explicit_batch :: nat
  parse_graph :: "nat \<Rightarrow> content option \<Rightarrow> bool \<times> string list \<times> nat"
  shape_accepted :: "string \<Rightarrow> int list \<Rightarrow> int list \<Rightarrow> int list \<Rightarrow> bool"
  build_serialized_network :: "nat \<Rightarrow> builder_config \<Rightarrow> bytes option"

subsection \<open>\<^verbatim>\<open>get_args\<close>\<close>

text \<open>
  The command line is taken after the argument parser has split it: the list of
  \<open>(option, word)\<close> pairs in the order given, each option under its declared name.
  The parser starts from the declared
  defaults and stores each word under its option; a flag declared with
  \<^verbatim>\<open>type=int\<close> converts the word (and the parser exits with status 2 when
  that fails, as it does for an option that was not declared), a flag declared with
  \<^verbatim>\<open>type=str\<close> or with no type stores the word as it is.
\<close>

definition default_args :: args where
  "default_args =
     \<lparr> model_path = ''runwayml/stable-diffusion-v1-5'',
       save_path = ''unet.engine'',
       batch_size = 1,
       img_size = PTuple [PInt 512, PInt 512],
       max_seq_length = PInt 77,
       max_gpu_memory = 15,
       onnx_trt = ''onnx'' \<rparr>"

definition store_arg :: "env \<Rightarrow> args \<Rightarrow> string \<times> string \<Rightarrow> error + args" where
  "store_arg env ns kv =
     (let opt = fst kv; v = snd kv in
      if opt = ''--model_path'' then Inr (ns\<lparr>model_path := v\<rparr>)
      else if opt = ''--save_path'' then Inr (ns\<lparr>save_path := v\<rparr>)
      else if opt = ''--batch_size'' then
        (case int_of_str env v of
           None \<Rightarrow> Inl (SystemExit (ExitCode 2))
         | Some n \<Rightarrow> Inr (ns\<lparr>batch_size := n\<rparr>))
      else if opt = ''--img_size'' then Inr (ns\<lparr>img_size := PStr v\<rparr>)
      else if opt = ''--max_seq_length'' then Inr (ns\<lparr>max_seq_length := PStr v\<rparr>)
      else if opt = ''--max_gpu_memory'' then
        (case int_of_str env v of
           None \<Rightarrow> Inl (SystemExit (ExitCode 2))
         | Some n \<Rightarrow> Inr (ns\<lparr>max_gpu_memory := n\<rparr>))
      else if opt = ''--onnx_trt'' then Inr (ns\<lparr>onnx_trt := v\<rparr>)
      else Inl (SystemExit (ExitCode 2)))"

fun parse_args :: "env \<Rightarrow> (string \<times> string) list \<Rightarrow> args \<Rightarrow> error + args" where
  "parse_args env [] ns = Inr ns"
| "parse_args env (kv # rest) ns =
     (case store_arg env ns kv of
        Inl e \<Rightarrow> Inl e
      | Inr ns' \<Rightarrow> parse_args env rest ns')"

definition get_args :: "env \<Rightarrow> (string \<times> string) list \<Rightarrow> error + args" where
  "get_args env cli = parse_args env cli default_args"

subsection \<open>Operations on the world\<close>

definition py_print :: "string \<Rightarrow> world \<Rightarrow> world" where
  "py_print line w = w\<lparr>stdout_buf := stdout_buf w @ [line]\<rparr>"

definition stdout_flush :: "world \<Rightarrow> world" where
  "stdout_flush w = w\<lparr>stdout := stdout w @ stdout_buf w, stdout_buf := []\<rparr>"

definition path_exists :: "env \<Rightarrow> world \<Rightarrow> path \<Rightarrow> bool" where
  "path_exists env w p \<longleftrightarrow> files w (resolve env p) \<noteq> None \<or> resolve env p \<in> dirs w"

definition makedirs :: "env \<Rightarrow> path \<Rightarrow> world \<Rightarrow> (error + unit) \<times> world" where
  "makedirs env p w =
     (if may_mkdir env w p then (Inr (), w\<lparr>dirs := insert (resolve env p) (dirs w)\<rparr>)
      else (Inl OSError, w))"

definition write_file :: "env \<Rightarrow> path \<Rightarrow> content \<Rightarrow> world \<Rightarrow> (error + unit) \<times> world" where
  "write_file env p c w =
     (if may_write env w p then (Inr (), w\<lparr>files := (files w)(resolve env p \<mapsto> c)\<rparr>)
      else (Inl OSError, w))"

subsection \<open>The exporter, \<^verbatim>\<open>convert_to_onnx\<close>\<close>

text \<open>
  \<^verbatim>\<open>torch.rand\<close> takes integer sizes only and refuses a negative one.
\<close>

definition torch_rand :: "nat \<Rightarrow> pyval list \<Rightarrow> device \<Rightarrow> error + tensor" where
  "torch_rand k sizes dev =
     (case to_ints sizes of
        None \<Rightarrow> Inl TypeError
      | Some ns \<Rightarrow>
          if list_all (\<lambda>n. 0 \<le> n) ns then Inr (RandTensor k ns dev) else Inl RuntimeError)"

text \<open>Lines 59 to 61: the latent height and width of the sample inputs.\<close>

definition latent_hw :: "args \<Rightarrow> error + pyval \<times> pyval" where
  "latent_hw a =
     (case py_index (img_size a) 0 of Inl e \<Rightarrow> Inl e | Inr height \<Rightarrow>
      case py_index (img_size a) 1 of Inl e \<Rightarrow> Inl e | Inr width \<Rightarrow>
      case py_floordiv height 8 of Inl e \<Rightarrow> Inl e | Inr h \<Rightarrow>
      case py_floordiv width 8 of Inl e \<Rightarrow> Inl e | Inr w \<Rightarrow>
      Inr (h, w))"

text \<open>Lines 62 to 77: the two sample input tuples, built left to right.\<close>

definition check_inputs :: "args \<Rightarrow> device \<Rightarrow> error + tensor list \<times> tensor list" where
  "check_inputs a device =
     (case latent_hw a of Inl e \<Rightarrow> Inl e | Inr (h, w) \<Rightarrow>
      case torch_rand 0 [PInt 2, PInt 4, h, w] device of Inl e \<Rightarrow> Inl e | Inr x0 \<Rightarrow>
      case torch_rand 1 [PInt 2, max_seq_length a, PInt 768] device of Inl e \<Rightarrow> Inl e | Inr y0 \<Rightarrow>
      case torch_rand 2 [PInt 2, PInt 4, h, w] device of Inl e \<Rightarrow> Inl e | Inr x1 \<Rightarrow>
      case torch_rand 3 [PInt 2, PInt 12, PInt 768] device of Inl e \<Rightarrow> Inl e | Inr y1 \<Rightarrow>
      Inr ([x0, LongTensor [980] device, y0, BoolTensor False device, BoolTensor False device],
           [x1, LongTensor [910] device, y1, BoolTensor False device, BoolTensor False device]))"

definition onnx_export_opts :: export_opts where
  "onnx_export_opts =
     \<lparr> export_params = True,
       opset_version = 16,
       do_constant_folding = True,
       input_names = [''latent_model_input'', ''t'', ''encoder_hidden_states''],
       output_names = [''out_sample''],
       dynamic_axes =
         [(''latent_model_input'', [0]), (''t'', [0]), (''encoder_hidden_states'', [0, 1])] \<rparr>"

text \<open>\<^verbatim>\<open>torch.onnx.export(model, sample, path, ...)\<close>: export, then write the file.\<close>

definition torch_onnx_export ::
  "env \<Rightarrow> nat \<Rightarrow> tensor list \<Rightarrow> path \<Rightarrow> export_opts \<Rightarrow> world \<Rightarrow> (error + unit) \<times> world" where
  "torch_onnx_export env traced sample p opts w =
     (case onnx_export env traced sample opts of
        Inl e \<Rightarrow> (Inl e, w)
      | Inr m \<Rightarrow> write_file env p (Graph m) w)"

text \<open>
  \<^verbatim>\<open>convert_float_to_float16_model_path(path, keep_io_types)\<close>: load the graph
  file, then convert it.
\<close>

definition convert_float_to_float16_model_path ::
  "env \<Rightarrow> path \<Rightarrow> bool \<Rightarrow> world \<Rightarrow> error + onnx_model" where
  "convert_float_to_float16_model_path env p keep_io_types w =
     (case files w (resolve env p) of
        None \<Rightarrow> Inl OSError
      | Some (Blob b) \<Rightarrow> Inl (LibraryError ''DecodeError'')
      | Some (Graph m) \<Rightarrow> convert_float_to_float16 env m keep_io_types)"

definition onnx_save :: "env \<Rightarrow> onnx_model \<Rightarrow> path \<Rightarrow> world \<Rightarrow> (error + unit) \<times> world" where
  "onnx_save env m p w = write_file env p (Graph m) w"

definition convert_to_onnx :: "env \<Rightarrow> args \<Rightarrow> world \<Rightarrow> (error + unit) \<times> world" where
  "convert_to_onnx env a w =
     (let device = (if cuda_is_available env then Cuda else Cpu) in
      case from_pretrained env (model_path a) ''unet'' True of Inl e \<Rightarrow> (Inl e, w) | Inr loaded \<Rightarrow>
      case to_device env loaded device of Inl e \<Rightarrow> (Inl e, w) | Inr unet \<Rightarrow>
      case (if \<not> path_exists env w ''unet'' then makedirs env ''unet'' w else (Inr (), w)) of
        (Inl e, w1) \<Rightarrow> (Inl e, w1)
      | (Inr u, w1) \<Rightarrow>
      case check_inputs a device of Inl e \<Rightarrow> (Inl e, w1) | Inr (sample0, sample1) \<Rightarrow>
      case jit_trace env unet sample0 [sample1] True of Inl e \<Rightarrow> (Inl e, w1) | Inr traced_model \<Rightarrow>
      case torch_onnx_export env traced_model sample0 ''unet/model.onnx'' onnx_export_opts w1 of
        (Inl e, w2) \<Rightarrow> (Inl e, w2)
      | (Inr u, w2) \<Rightarrow>
      case convert_float_to_float16_model_path env ''unet/model.onnx'' True w2 of
        Inl e \<Rightarrow> (Inl e, w2)
      | Inr new_onnx_model \<Rightarrow> onnx_save env new_onnx_model ''unet/model_fp16.onnx'' w2)"

subsection \<open>The compiler, \<^verbatim>\<open>convert_to_trt\<close>\<close>

text \<open>
  Lines 116 and 117: the parser keeps the errors it recorded; the loop prints them by
  index.
\<close>

definition print_errors :: "string list \<Rightarrow> world \<Rightarrow> world" where
  "print_errors errors w = foldl (\<lambda>w idx. py_print (errors ! idx) w) w [0..<length errors]"

text \<open>Lines 123 to 130: the three shapes, their components evaluated left to right.\<close>

definition trt_shapes :: "args \<Rightarrow> error + pyval list \<times> pyval list \<times> pyval list" where
  "trt_shapes a =
     (case py_index (img_size a) 0 of Inl e \<Rightarrow> Inl e | Inr height \<Rightarrow>
      case py_floordiv height 8 of Inl e \<Rightarrow> Inl e | Inr h \<Rightarrow>
      case py_index (img_size a) 1 of Inl e \<Rightarrow> Inl e | Inr width \<Rightarrow>
      case py_floordiv width 8 of Inl e \<Rightarrow> Inl e | Inr w \<Rightarrow>
      Inr ([PInt (batch_size a * 2), PInt 4, h, w],
           [PInt (batch_size a * 2), max_seq_length a, PInt 768],
           [PInt (batch_size a)]))"

text \<open>
  \<^verbatim>\<open>profile.set_shape(input, min, opt, max)\<close>: the three tuples must convert to
  dimensions (integers only), and the toolkit may refuse the shapes.
\<close>

definition set_shape ::
  "env \<Rightarrow> opt_profile \<Rightarrow> string \<Rightarrow> pyval list \<Rightarrow> pyval list \<Rightarrow> pyval list \<Rightarrow> error + opt_profile" where
  "set_shape env profile name mn opt mx =
     (case to_ints mn of None \<Rightarrow> Inl TypeError | Some dmin \<Rightarrow>
      case to_ints opt of None \<Rightarrow> Inl TypeError | Some dopt \<Rightarrow>
      case to_ints mx of None \<Rightarrow> Inl TypeError | Some dmax \<Rightarrow>
      if shape_accepted env name dmin dopt dmax
      then Inr (filter (\<lambda>entry. fst entry \<noteq> name) profile @ [(name, dmin, dopt, dmax)])
      else Inl RuntimeError)"

definition add_optimization_profile :: "builder_config \<Rightarrow> opt_profile \<Rightarrow> builder_config" where
  "add_optimization_profile config profile =
     config\<lparr>optimization_profiles := optimization_profiles config @ [profile]\<rparr>"

text \<open>The limit is passed as an unsigned 64-bit size.\<close>

definition set_memory_pool_limit ::
  "builder_config \<Rightarrow> memory_pool_type \<Rightarrow> int \<Rightarrow> error + builder_config" where
  "set_memory_pool_limit config pool limit =
     (if 0 \<le> limit \<and> limit < 2 ^ 64
      then Inr (config\<lparr>memory_pool_limits :=
                  filter (\<lambda>entry. fst entry \<noteq> pool) (memory_pool_limits config) @ [(pool, limit)]\<rparr>)
      else Inl TypeError)"

definition set_flag :: "builder_config \<Rightarrow> builder_flag \<Rightarrow> builder_config" where
  "set_flag config flag = config\<lparr>builder_flags := List.insert flag (builder_flags config)\<rparr>"

text \<open>
  Lines 120 to 140: the configuration handed to the build step. In
  \<^verbatim>\<open>args.max_gpu_memory * 1 << 30\<close> the product binds tighter than the shift.
\<close>

definition trt_builder_config :: "env \<Rightarrow> args \<Rightarrow> error + builder_config" where
  "trt_builder_config env a =
     (let config = \<lparr>optimization_profiles = [], memory_pool_limits = [], builder_flags = []\<rparr>;
          profile = [] in
      case trt_shapes a of Inl e \<Rightarrow> Inl e | Inr (latents_shape, embed_shape, timestep_shape) \<Rightarrow>
      case set_shape env profile ''latent_model_input'' latents_shape latents_shape latents_shape of
        Inl e \<Rightarrow> Inl e | Inr profile1 \<Rightarrow>
      case set_shape env profile1 ''encoder_hidden_states'' embed_shape embed_shape embed_shape of
        Inl e \<Rightarrow> Inl e | Inr profile2 \<Rightarrow>
      case set_shape env profile2 ''t'' timestep_shape timestep_shape timestep_shape of
        Inl e \<Rightarrow> Inl e | Inr profile3 \<Rightarrow>
      case set_memory_pool_limit (add_optimization_profile config profile3) WORKSPACE
             (push_bit 30 (max_gpu_memory a * 1)) of
        Inl e \<Rightarrow> Inl e | Inr config1 \<Rightarrow>
      Inr (set_flag config1 FP16))"

text \<open>
  Lines 144 and 145: opening the path for binary writing creates or truncates the file;
  writing \<^verbatim>\<open>None\<close> (no serialized engine) raises, and the file is closed as it is.
\<close>

definition save_engine :: "env \<Rightarrow> path \<Rightarrow> bytes option \<Rightarrow> world \<Rightarrow> (error + unit) \<times> world" where
  "save_engine env p serialized_engine w =
     (if \<not> may_write env w p then (Inl OSError, w)
      else
        let w1 = w\<lparr>files := (files w)(resolve env p \<mapsto> Blob [])\<rparr> in
        case serialized_engine of
          None \<Rightarrow> (Inl TypeError, w1)
        | Some b \<Rightarrow> (Inr (), w1\<lparr>files := (files w1)(resolve env p \<mapsto> Blob b)\<rparr>))"

definition convert_to_trt :: "env \<Rightarrow> args \<Rightarrow> world \<Rightarrow> (error + unit) \<times> world" where
  "convert_to_trt env a w =
     (case parse_graph env (push_bit (explicit_batch env) 1) (files w (resolve env ''./unet/model.onnx'')) of
        (parse_success, errors, network) \<Rightarrow>
      let w1 = print_errors errors w in
      if \<not> parse_success then (Inl (SystemExit (ExitMsg ''ONNX model parsing failed'')), w1)
      else
        case trt_builder_config env a of Inl e \<Rightarrow> (Inl e, w1) | Inr config \<Rightarrow>
        case save_engine env (save_path a) (build_serialized_network env network config) w1 of
          (Inl e, w2) \<Rightarrow> (Inl e, w2)
        | (Inr u, w2) \<Rightarrow> (Inr (), py_print (''Engine is saved to '' @ save_path a) w2))"

subsection \<open>The entry point\<close>

text \<open>Lines 151 to 156, after the arguments are parsed.\<close>

definition main_body :: "env \<Rightarrow> args \<Rightarrow> world \<Rightarrow> (error + unit) \<times> world" where
  "main_body env a w =
     (case (if onnx_trt a = ''onnx'' then convert_to_onnx env a w else (Inr (), w)) of
        (Inl e, w1) \<Rightarrow> (Inl e, w1)
      | (Inr u, w1) \<Rightarrow>
          let w2 = stdout_flush w1 in
          if onnx_trt a = ''trt'' then convert_to_trt env a w2 else (Inr (), w2))"

definition script :: "env \<Rightarrow> (string \<times> string) list \<Rightarrow> world \<Rightarrow> (error + unit) \<times> world" where
  "script env cli w =
     (case get_args env cli of
        Inl e \<Rightarrow> (Inl e, w)
      | Inr a \<Rightarrow> main_body env a w)"

text \<open>
  How the interpreter ends the process: status 0 when the script returns; a
  \<^verbatim>\<open>SystemExit\<close> carrying a message prints the message on the error stream and
  gives status 1, one carrying a number gives that number; any other exception prints
  a traceback and gives status 1. Pending output is flushed.
\<close>

fun exception_name :: "error \<Rightarrow> string" where
  "exception_name TypeError = ''TypeError''"
| "exception_name IndexError = ''IndexError''"
| "exception_name RuntimeError = ''RuntimeError''"
| "exception_name OSError = ''OSError''"
| "exception_name (LibraryError s) = s"
| "exception_name (SystemExit x) = ''SystemExit''"

fun exit_status :: "error + unit \<Rightarrow> int" where
  "exit_status (Inr u) = 0"
| "exit_status (Inl (SystemExit (ExitCode n))) = n"
| "exit_status (Inl (SystemExit (ExitMsg m))) = 1"
| "exit_status (Inl e) = 1"

fun report :: "error + unit \<Rightarrow> world \<Rightarrow> world" where
  "report (Inr u) w = w"
| "report (Inl (SystemExit (ExitCode n))) w = w"
| "report (Inl (SystemExit (ExitMsg m))) w = w\<lparr>stderr := stderr w @ [m]\<rparr>"
| "report (Inl e) w = w\<lparr>stderr := stderr w @ [''Traceback: '' @ exception_name e]\<rparr>"

definition run_script :: "env \<Rightarrow> (string \<times> string) list \<Rightarrow> world \<Rightarrow> int \<times> world" where
  "run_script env cli w =
     (case script env cli w of (r, w1) \<Rightarrow> (exit_status r, stdout_flush (report r w1)))"

subsection \<open>A concrete environment\<close>

text \<open>
  One environment and two worlds on which the theorems below are run: every library call
  succeeds, a graph whose body is \<open>0\<close> does not build, and \<open>./\<close> in front of
  a path is dropped.
\<close>

definition demo_graph :: onnx_model where
  "demo_graph =
     \<lparr> graph_inputs = [(''latent_model_input'', 1), (''t'', 7), (''encoder_hidden_states'', 1)],
       graph_outputs = [(''out_sample'', 1)],
       graph_body = 5 \<rparr>"

definition demo_env :: env where
  "demo_env =
     \<lparr> int_of_str = (\<lambda>s. if s = ''2'' then Some 2 else None),
       cuda_is_available = False,
       from_pretrained = (\<lambda>name subfolder token. Inr 0),
       to_device = (\<lambda>unet dev. Inr unet),
       resolve = (\<lambda>p. if take 2 p = ''./'' then drop 2 p else p),
       may_mkdir = (\<lambda>w p. True),
       may_write = (\<lambda>w p. True),
       jit_trace = (\<lambda>unet sample checks strict. Inr 1),
       onnx_export = (\<lambda>traced sample opts. Inr demo_graph),
       convert_float_to_float16 =
         (\<lambda>m keep. Inr (if keep then m\<lparr>graph_body := Suc (graph_body m)\<rparr>
                         else m\<lparr>graph_inputs := map (\<lambda>e. (fst e, 10)) (graph_inputs m),
                                graph_outputs := map (\<lambda>e. (fst e, 10)) (graph_outputs m)\<rparr>)),
       explicit_batch = 0,
       parse_graph =
         (\<lambda>flags c. case c of
                       None \<Rightarrow> (False, [''file not found''], 0)
                     | Some (Blob b) \<Rightarrow> (False, [''not a graph''], 0)
                     | Some (Graph m) \<Rightarrow> (True, [], graph_body m)),
       shape_accepted = (\<lambda>name dmin dopt dmax. True),
       build_serialized_network = (\<lambda>network config. if network = 0 then None else Some [1, 2, 3]) \<rparr>"

definition empty_world :: world where
  "empty_world = \<lparr> files = Map.empty, dirs = {}, stdout_buf = [], stdout = [], stderr = [] \<rparr>"

definition exported_world :: "onnx_model \<Rightarrow> world" where
  "exported_world m = empty_world\<lparr>files := [''unet/model.onnx'' \<mapsto> Graph m], dirs := {''unet''}\<rparr>"

section \<open>Properties\<close>

subsection \<open>Output and flushing\<close>

lemma print_errors_take:
  "n \<le> length es \<Longrightarrow>
   foldl (\<lambda>w idx. py_print (es ! idx) w) w [0..<n] = w\<lparr>stdout_buf := stdout_buf w @ take n es\<rparr>"
proof (induction n)
  case 0
  then show ?case by simp
next
  case (Suc n)
  then have "n < length es" by simp
  then have "take (Suc n) es = take n es @ [es ! n]"
    by (simp add: take_Suc_conv_app_nth)
  with Suc show ?case by (simp add: py_print_def)
qed

lemma print_errors_eq: "print_errors es w = w\<lparr>stdout_buf := stdout_buf w @ es\<rparr>"
  by (simp add: print_errors_def print_errors_take)

lemma stdout_flush_frame:
  "files (stdout_flush w) = files w" "dirs (stdout_flush w) = dirs w"
  "stderr (stdout_flush w) = stderr w"
  by (simp_all add: stdout_flush_def)

lemma stdout_flush_idem: "stdout_flush (stdout_flush w) = stdout_flush w"
  by (simp add: stdout_flush_def)

lemma demo_get_args_mode:
  "get_args demo_env [(''--onnx_trt'', m)] = Inr (default_args\<lparr>onnx_trt := m\<rparr>)"
  by (simp add: get_args_def store_arg_def)

subsection \<open>A graph file that does not parse\<close>

text \<open>
  C1. When the program runs in mode \<open>trt\<close> and parsing \<^verbatim>\<open>./unet/model.onnx\<close>
  does not succeed, every error the parser recorded is printed, in order, on standard
  output; the compiler leaves through \<^verbatim>\<open>sys.exit\<close> with a message, which
  the interpreter prints on the error stream and turns into exit status 1, so the run
  adds one line more than the parser recorded errors (at least one diagnostic line); no
  file and no directory is created or changed, so no engine file is written.
\<close>

theorem parse_failure_reported:
  assumes args: "get_args env cli = Inr a"
    and mode: "onnx_trt a = ''trt''"
    and parse: "parse_graph env (push_bit (explicit_batch env) 1)
                  (files w (resolve env ''./unet/model.onnx'')) = (False, errs, network)"
  shows "convert_to_trt env a w =
           (Inl (SystemExit (ExitMsg ''ONNX model parsing failed'')),
            w\<lparr>stdout_buf := stdout_buf w @ errs\<rparr>)
       \<and> fst (run_script env cli w) = 1
       \<and> stdout (snd (run_script env cli w)) = stdout w @ stdout_buf w @ errs
       \<and> stderr (snd (run_script env cli w)) = stderr w @ [''ONNX model parsing failed'']
       \<and> length (stdout (snd (run_script env cli w))) + length (stderr (snd (run_script env cli w))) =
           length (stdout w) + length (stdout_buf w) + length (stderr w) + length errs + 1
       \<and> files (snd (run_script env cli w)) = files w
       \<and> dirs (snd (run_script env cli w)) = dirs w"
proof -
  have c: "convert_to_trt env a w =
           (Inl (SystemExit (ExitMsg ''ONNX model parsing failed'')),
            w\<lparr>stdout_buf := stdout_buf w @ errs\<rparr>)"
    using parse by (simp add: convert_to_trt_def print_errors_eq)
  have p: "parse_graph env (push_bit (explicit_batch env) 1)
             (files (stdout_flush w) (resolve env ''./unet/model.onnx'')) = (False, errs, network)"
    using parse by (simp add: stdout_flush_def)
  have s: "script env cli w =
           (Inl (SystemExit (ExitMsg ''ONNX model parsing failed'')),
            (stdout_flush w)\<lparr>stdout_buf := errs\<rparr>)"
    using args mode p
    by (simp add: script_def main_body_def convert_to_trt_def print_errors_eq stdout_flush_def)
  have "fst (run_script env cli w) = 1" by (simp add: run_script_def s)
  moreover have "stdout (snd (run_script env cli w)) = stdout w @ stdout_buf w @ errs"
    by (simp add: run_script_def s stdout_flush_def)
  moreover have "stderr (snd (run_script env cli w)) = stderr w @ [''ONNX model parsing failed'']"
    by (simp add: run_script_def s stdout_flush_def)
  moreover have "files (snd (run_script env cli w)) = files w"
    by (simp add: run_script_def s stdout_flush_def)
  moreover have "dirs (snd (run_script env cli w)) = dirs w"
    by (simp add: run_script_def s stdout_flush_def)
  ultimately show ?thesis using c by simp
qed

theorem parse_failure_reported_witness:
  "get_args demo_env [(''--onnx_trt'', ''trt'')] = Inr (default_args\<lparr>onnx_trt := ''trt''\<rparr>)
   \<and> parse_graph demo_env (push_bit (explicit_batch demo_env) 1)
        (files empty_world (resolve demo_env ''./unet/model.onnx'')) = (False, [''file not found''], 0)
   \<and> fst (run_script demo_env [(''--onnx_trt'', ''trt'')] empty_world) = 1
   \<and> stdout (snd (run_script demo_env [(''--onnx_trt'', ''trt'')] empty_world)) = [''file not found'']
   \<and> stderr (snd (run_script demo_env [(''--onnx_trt'', ''trt'')] empty_world)) =
        [''ONNX model parsing failed'']
   \<and> files (snd (run_script demo_env [(''--onnx_trt'', ''trt'')] empty_world)) = Map.empty"
proof -
  have h1: "get_args demo_env [(''--onnx_trt'', ''trt'')] = Inr (default_args\<lparr>onnx_trt := ''trt''\<rparr>)"
    by (rule demo_get_args_mode)
  have h2: "onnx_trt (default_args\<lparr>onnx_trt := ''trt''\<rparr>) = ''trt''" by simp
  have h3: "parse_graph demo_env (push_bit (explicit_batch demo_env) 1)
              (files empty_world (resolve demo_env ''./unet/model.onnx'')) =
            (False, [''file not found''], 0)"
    by (simp add: demo_env_def empty_world_def)
  from parse_failure_reported [OF h1 h2 h3] h1 h3 show ?thesis
    by (simp add: empty_world_def)
qed

subsection \<open>Which pipeline runs\<close>

text \<open>
  C2. Once the arguments are parsed: with a mode other than \<open>onnx\<close> and \<open>trt\<close>
  the script calls neither pipeline, it only flushes standard output and returns, so the
  process ends with status 0 and the files and directories are as before; with mode
  \<open>onnx\<close> the script is the exporter followed by the flush, and with mode
  \<open>trt\<close> it is the flush followed by the compiler.
\<close>

theorem mode_selects_pipeline:
  assumes args: "get_args env cli = Inr a"
  shows "(onnx_trt a \<noteq> ''onnx'' \<and> onnx_trt a \<noteq> ''trt'' \<longrightarrow>
            script env cli w = (Inr (), stdout_flush w)
          \<and> run_script env cli w = (0, stdout_flush w)
          \<and> files (snd (run_script env cli w)) = files w
          \<and> dirs (snd (run_script env cli w)) = dirs w)
       \<and> (onnx_trt a = ''onnx'' \<longrightarrow>
            script env cli w =
              (case convert_to_onnx env a w of
                 (Inl e, w1) \<Rightarrow> (Inl e, w1)
               | (Inr u, w1) \<Rightarrow> (Inr (), stdout_flush w1)))
       \<and> (onnx_trt a = ''trt'' \<longrightarrow>
            script env cli w = convert_to_trt env a (stdout_flush w))"
proof (intro conjI impI)
  assume other: "onnx_trt a \<noteq> ''onnx'' \<and> onnx_trt a \<noteq> ''trt''"
  then show s: "script env cli w = (Inr (), stdout_flush w)"
    using args by (simp add: script_def main_body_def)
  then show r: "run_script env cli w = (0, stdout_flush w)"
    by (simp add: run_script_def stdout_flush_idem)
  from r show "files (snd (run_script env cli w)) = files w"
    by (simp add: stdout_flush_frame)
  from r show "dirs (snd (run_script env cli w)) = dirs w"
    by (simp add: stdout_flush_frame)
next
  assume "onnx_trt a = ''onnx''"
  then show "script env cli w =
              (case convert_to_onnx env a w of
                 (Inl e, w1) \<Rightarrow> (Inl e, w1)
               | (Inr u, w1) \<Rightarrow> (Inr (), stdout_flush w1))"
    using args by (simp add: script_def main_body_def split: prod.splits sum.splits)
next
  assume "onnx_trt a = ''trt''"
  then show "script env cli w = convert_to_trt env a (stdout_flush w)"
    using args by (simp add: script_def main_body_def)
qed

theorem mode_selects_pipeline_witness:
  "run_script demo_env [(''--onnx_trt'', ''both'')] empty_world = (0, empty_world)
   \<and> script demo_env [(''--onnx_trt'', ''onnx'')] empty_world =
       (case convert_to_onnx demo_env (default_args\<lparr>onnx_trt := ''onnx''\<rparr>) empty_world of
          (Inl e, w1) \<Rightarrow> (Inl e, w1)
        | (Inr u, w1) \<Rightarrow> (Inr (), stdout_flush w1))
   \<and> script demo_env [(''--onnx_trt'', ''trt'')] empty_world =
       convert_to_trt demo_env (default_args\<lparr>onnx_trt := ''trt''\<rparr>) empty_world"
proof -
  have f: "stdout_flush empty_world = empty_world"
    by (simp add: stdout_flush_def empty_world_def)
  from mode_selects_pipeline [OF demo_get_args_mode [of "''both''"], of empty_world]
    mode_selects_pipeline [OF demo_get_args_mode [of "''onnx''"], of empty_world]
    mode_selects_pipeline [OF demo_get_args_mode [of "''trt''"], of empty_world]
  show ?thesis by (simp add: f)
qed

subsection \<open>Shapes\<close>

lemma torch_rand_Inr:
  assumes "torch_rand k sizes dev = Inr x"
  shows "\<exists>ns. to_ints sizes = Some ns \<and> x = RandTensor k ns dev"
  using assms by (auto simp: torch_rand_def split: option.splits if_splits)

lemma to_ints_4:
  "to_ints [PInt a, PInt b, h, w] = Some ns \<Longrightarrow> \<exists>h' w'. ns = [a, b, h', w']"
  by (auto split: option.splits)

lemma to_ints_3:
  "to_ints [PInt a, l, PInt c] = Some ns \<Longrightarrow> \<exists>l'. ns = [a, l', c]"
  by (auto split: option.splits)

lemma check_inputs_Inr:
  assumes "check_inputs a dev = Inr (s0, s1)"
  shows "\<exists>h w l. s0 = [RandTensor 0 [2, 4, h, w] dev, LongTensor [980] dev,
                        RandTensor 1 [2, l, 768] dev, BoolTensor False dev, BoolTensor False dev]
               \<and> s1 = [RandTensor 2 [2, 4, h, w] dev, LongTensor [910] dev,
                        RandTensor 3 [2, 12, 768] dev, BoolTensor False dev, BoolTensor False dev]"
proof -
  from assms obtain h w x0 y0 x1 y1 where
    x0: "torch_rand 0 [PInt 2, PInt 4, h, w] dev = Inr x0" and
    y0: "torch_rand 1 [PInt 2, max_seq_length a, PInt 768] dev = Inr y0" and
    x1: "torch_rand 2 [PInt 2, PInt 4, h, w] dev = Inr x1" and
    y1: "torch_rand 3 [PInt 2, PInt 12, PInt 768] dev = Inr y1" and
    s0: "s0 = [x0, LongTensor [980] dev, y0, BoolTensor False dev, BoolTensor False dev]" and
    s1: "s1 = [x1, LongTensor [910] dev, y1, BoolTensor False dev, BoolTensor False dev]"
    by (auto simp: check_inputs_def split: sum.splits prod.splits)
  from x0 obtain n0 where n0: "to_ints [PInt 2, PInt 4, h, w] = Some n0" "x0 = RandTensor 0 n0 dev"
    using torch_rand_Inr by blast
  from x1 n0 have x1': "x1 = RandTensor 2 n0 dev"
    using torch_rand_Inr by fastforce
  from n0 obtain h' w' where hw: "n0 = [2, 4, h', w']" using to_ints_4 by blast
  from y0 obtain m0 where m0: "to_ints [PInt 2, max_seq_length a, PInt 768] = Some m0"
    "y0 = RandTensor 1 m0 dev"
    using torch_rand_Inr by blast
  from m0 obtain l' where l: "m0 = [2, l', 768]" using to_ints_3 by blast
  from y1 have y1': "y1 = RandTensor 3 [2, 12, 768] dev"
    by (simp add: torch_rand_def)
  show ?thesis using s0 s1 n0 x1' hw m0 l y1' by simp
qed


lemma set_shape_Inr:
  assumes "set_shape env profile name s s s = Inr p"
  shows "\<exists>d. to_ints s = Some d \<and> shape_accepted env name d d d
            \<and> p = filter (\<lambda>entry. fst entry \<noteq> name) profile @ [(name, d, d, d)]"
  using assms by (auto simp: set_shape_def split: option.splits if_splits)

lemma set_memory_pool_limit_Inr:
  assumes "set_memory_pool_limit config pool limit = Inr config'"
  shows "optimization_profiles config' = optimization_profiles config"
  using assms by (auto simp: set_memory_pool_limit_def split: if_splits)

lemma trt_builder_config_profiles:
  assumes "trt_builder_config env a = Inr config"
  shows "\<exists>ls es ts l e t.
           trt_shapes a = Inr (ls, es, ts)
         \<and> to_ints ls = Some l \<and> to_ints es = Some e \<and> to_ints ts = Some t
         \<and> optimization_profiles config =
             [[(''latent_model_input'', l, l, l), (''encoder_hidden_states'', e, e, e),
               (''t'', t, t, t)]]"
proof -
  from assms obtain ls es ts p1 p2 p3 c1 where
    sh: "trt_shapes a = Inr (ls, es, ts)" and
    p1: "set_shape env [] ''latent_model_input'' ls ls ls = Inr p1" and
    p2: "set_shape env p1 ''encoder_hidden_states'' es es es = Inr p2" and
    p3: "set_shape env p2 ''t'' ts ts ts = Inr p3" and
    c1: "set_memory_pool_limit
           (add_optimization_profile
              \<lparr>optimization_profiles = [], memory_pool_limits = [], builder_flags = []\<rparr> p3)
           WORKSPACE (push_bit 30 (max_gpu_memory a * 1)) = Inr c1" and
    c: "config = set_flag c1 FP16"
    by (auto simp: trt_builder_config_def split: sum.splits prod.splits)
  from set_shape_Inr [OF p1] obtain l where
    l: "to_ints ls = Some l" "p1 = [(''latent_model_input'', l, l, l)]"
    by auto
  from set_shape_Inr [OF p2] l obtain e where
    e: "to_ints es = Some e"
      "p2 = [(''latent_model_input'', l, l, l), (''encoder_hidden_states'', e, e, e)]"
    by auto
  from set_shape_Inr [OF p3] e obtain t where
    t: "to_ints ts = Some t"
      "p3 = [(''latent_model_input'', l, l, l), (''encoder_hidden_states'', e, e, e),
             (''t'', t, t, t)]"
    by auto
  from set_memory_pool_limit_Inr [OF c1] have "optimization_profiles c1 = [p3]"
    by (simp add: add_optimization_profile_def)
  with c have "optimization_profiles config = [p3]" by (simp add: set_flag_def)
  with sh l e t show ?thesis by blast
qed

lemma demo_config:
  "trt_builder_config demo_env (default_args\<lparr>batch_size := b\<rparr>) =
     Inr \<lparr>optimization_profiles =
            [[(''latent_model_input'', [b * 2, 4, 64, 64], [b * 2, 4, 64, 64], [b * 2, 4, 64, 64]),
              (''encoder_hidden_states'', [b * 2, 77, 768], [b * 2, 77, 768], [b * 2, 77, 768]),
              (''t'', [b], [b], [b])]],
          memory_pool_limits = [(WORKSPACE, 16106127360)],
          builder_flags = [FP16]\<rparr>"
  by (simp add: trt_builder_config_def trt_shapes_def set_shape_def add_optimization_profile_def
      set_memory_pool_limit_def set_flag_def demo_env_def default_args_def)

text \<open>
  C3. With batch size \<open>b\<close>, image size \<open>(H, W)\<close> and sequence length \<open>L\<close> the
  compiler computes the latent shape \<open>(2b, 4, H // 8, W // 8)\<close>, the
  encoder-hidden-state shape \<open>(2b, L, 768)\<close> and the timestep shape \<open>(b,)\<close>, and
  these three are the shapes of the profile in any configuration it builds.
\<close>

theorem trt_shapes_doubled_batch:
  assumes img: "img_size a = PTuple [PInt H, PInt W]"
    and len: "max_seq_length a = PInt L"
  shows "trt_shapes a =
           Inr ([PInt (2 * batch_size a), PInt 4, PInt (H div 8), PInt (W div 8)],
                [PInt (2 * batch_size a), PInt L, PInt 768],
                [PInt (batch_size a)])
       \<and> (trt_builder_config env a = Inr config \<longrightarrow>
            optimization_profiles config =
              [[(''latent_model_input'',
                   [2 * batch_size a, 4, H div 8, W div 8],
                   [2 * batch_size a, 4, H div 8, W div 8],
                   [2 * batch_size a, 4, H div 8, W div 8]),
                (''encoder_hidden_states'',
                   [2 * batch_size a, L, 768], [2 * batch_size a, L, 768],
                   [2 * batch_size a, L, 768]),
                (''t'', [batch_size a], [batch_size a], [batch_size a])]])"
proof -
  have sh: "trt_shapes a =
           Inr ([PInt (2 * batch_size a), PInt 4, PInt (H div 8), PInt (W div 8)],
                [PInt (2 * batch_size a), PInt L, PInt 768],
                [PInt (batch_size a)])"
    using img len by (simp add: trt_shapes_def)
  have "optimization_profiles config =
              [[(''latent_model_input'',
                   [2 * batch_size a, 4, H div 8, W div 8],
                   [2 * batch_size a, 4, H div 8, W div 8],
                   [2 * batch_size a, 4, H div 8, W div 8]),
                (''encoder_hidden_states'',
                   [2 * batch_size a, L, 768], [2 * batch_size a, L, 768],
                   [2 * batch_size a, L, 768]),
                (''t'', [batch_size a], [batch_size a], [batch_size a])]]"
    if "trt_builder_config env a = Inr config"
    using trt_builder_config_profiles [OF that] sh by auto
  with sh show ?thesis by blast
qed

theorem trt_shapes_doubled_batch_witness:
  "trt_shapes (default_args\<lparr>batch_size := 3\<rparr>) =
     Inr ([PInt 6, PInt 4, PInt 64, PInt 64], [PInt 6, PInt 77, PInt 768], [PInt 3])
   \<and> (\<exists>config. trt_builder_config demo_env (default_args\<lparr>batch_size := 3\<rparr>) = Inr config
        \<and> optimization_profiles config =
            [[(''latent_model_input'', [6, 4, 64, 64], [6, 4, 64, 64], [6, 4, 64, 64]),
              (''encoder_hidden_states'', [6, 77, 768], [6, 77, 768], [6, 77, 768]),
              (''t'', [3], [3], [3])]])"
proof -
  have img: "img_size (default_args\<lparr>batch_size := 3\<rparr>) = PTuple [PInt 512, PInt 512]"
    and len: "max_seq_length (default_args\<lparr>batch_size := 3\<rparr>) = PInt 77"
    by (simp_all add: default_args_def)
  from trt_shapes_doubled_batch [OF img len, of demo_env] demo_config [of 3]
  show ?thesis by simp
qed

text \<open>
  C4. Every configuration the compiler builds holds exactly one optimization profile, and
  that profile binds exactly the three inputs \<open>latent_model_input\<close>,
  \<open>encoder_hidden_states\<close> and \<open>t\<close>, each with minimum, optimum and maximum
  equal to one shape.
\<close>

theorem single_static_profile:
  assumes "trt_builder_config env a = Inr config"
  shows "\<exists>l e t. optimization_profiles config =
           [[(''latent_model_input'', l, l, l), (''encoder_hidden_states'', e, e, e),
             (''t'', t, t, t)]]"
  using trt_builder_config_profiles [OF assms] by blast

theorem single_static_profile_witness:
  "trt_builder_config demo_env (default_args\<lparr>batch_size := 1\<rparr>) =
     Inr \<lparr>optimization_profiles =
            [[(''latent_model_input'', [2, 4, 64, 64], [2, 4, 64, 64], [2, 4, 64, 64]),
              (''encoder_hidden_states'', [2, 77, 768], [2, 77, 768], [2, 77, 768]),
              (''t'', [1], [1], [1])]],
          memory_pool_limits = [(WORKSPACE, 16106127360)],
          builder_flags = [FP16]\<rparr>
   \<and> (\<exists>l e t.
        [[(''latent_model_input'', [2, 4, 64, 64], [2, 4, 64, 64], [2, 4, 64, 64]),
          (''encoder_hidden_states'', [2, 77, 768], [2, 77, 768], [2, 77, 768]),
          (''t'', [1::int], [1], [1])]] =
        [[(''latent_model_input'', l, l, l), (''encoder_hidden_states'', e, e, e),
          (''t'', t, t, t)]])"
proof -
  have h: "trt_builder_config demo_env (default_args\<lparr>batch_size := 1\<rparr>) =
     Inr \<lparr>optimization_profiles =
            [[(''latent_model_input'', [2, 4, 64, 64], [2, 4, 64, 64], [2, 4, 64, 64]),
              (''encoder_hidden_states'', [2, 77, 768], [2, 77, 768], [2, 77, 768]),
              (''t'', [1], [1], [1])]],
          memory_pool_limits = [(WORKSPACE, 16106127360)],
          builder_flags = [FP16]\<rparr>"
    using demo_config [of 1] by simp
  from single_static_profile [OF h] h show ?thesis by simp
qed



subsection \<open>The batch size and the exporter\<close>

lemma batch_size_update_fields:
  "model_path (a\<lparr>batch_size := b\<rparr>) = model_path a"
  "img_size (a\<lparr>batch_size := b\<rparr>) = img_size a"
  "max_seq_length (a\<lparr>batch_size := b\<rparr>) = max_seq_length a"
  by simp_all

lemma check_inputs_batch_size:
  "check_inputs (a\<lparr>batch_size := b\<rparr>) dev = check_inputs a dev"
  unfolding check_inputs_def latent_hw_def batch_size_update_fields ..

lemma convert_to_onnx_batch_size:
  "convert_to_onnx env (a\<lparr>batch_size := b\<rparr>) w = convert_to_onnx env a w"
  unfolding convert_to_onnx_def check_inputs_batch_size batch_size_update_fields ..

lemma demo_check_inputs:
  "check_inputs default_args Cpu =
     Inr ([RandTensor 0 [2, 4, 64, 64] Cpu, LongTensor [980] Cpu,
           RandTensor 1 [2, 77, 768] Cpu, BoolTensor False Cpu, BoolTensor False Cpu],
          [RandTensor 2 [2, 4, 64, 64] Cpu, LongTensor [910] Cpu,
           RandTensor 3 [2, 12, 768] Cpu, BoolTensor False Cpu, BoolTensor False Cpu])"
  by (simp add: check_inputs_def latent_hw_def torch_rand_def default_args_def)

text \<open>
  C8. Changing only the batch size changes nothing in the exporter: it returns the same
  result and the same world (the same graph files), since neither the sample inputs nor
  any call reads it; whenever the sample inputs are built, the leading dimension of the
  latent and of the embedding tensors is the literal 2.
\<close>

theorem batch_size_not_read_by_exporter:
  "convert_to_onnx env (a\<lparr>batch_size := b\<rparr>) w = convert_to_onnx env a w
   \<and> check_inputs (a\<lparr>batch_size := b\<rparr>) dev = check_inputs a dev
   \<and> (check_inputs a dev = Inr (s0, s1) \<longrightarrow>
        (\<exists>h w l. s0 = [RandTensor 0 [2, 4, h, w] dev, LongTensor [980] dev,
                        RandTensor 1 [2, l, 768] dev, BoolTensor False dev, BoolTensor False dev]
               \<and> s1 = [RandTensor 2 [2, 4, h, w] dev, LongTensor [910] dev,
                        RandTensor 3 [2, 12, 768] dev, BoolTensor False dev, BoolTensor False dev]))"
  using convert_to_onnx_batch_size check_inputs_batch_size check_inputs_Inr by blast

theorem batch_size_not_read_by_exporter_witness:
  "convert_to_onnx demo_env (default_args\<lparr>batch_size := 4\<rparr>) empty_world =
     convert_to_onnx demo_env default_args empty_world
   \<and> check_inputs (default_args\<lparr>batch_size := 4\<rparr>) Cpu =
       Inr ([RandTensor 0 [2, 4, 64, 64] Cpu, LongTensor [980] Cpu,
             RandTensor 1 [2, 77, 768] Cpu, BoolTensor False Cpu, BoolTensor False Cpu],
            [RandTensor 2 [2, 4, 64, 64] Cpu, LongTensor [910] Cpu,
             RandTensor 3 [2, 12, 768] Cpu, BoolTensor False Cpu, BoolTensor False Cpu])"
  using batch_size_not_read_by_exporter
      [where env = demo_env and a = default_args and b = 4 and w = empty_world and dev = Cpu]
    demo_check_inputs
  by simp

subsection \<open>What the exporter and the compiler leave on disk\<close>

lemmas exporter_defs =
  convert_to_onnx_def torch_onnx_export_def convert_float_to_float16_model_path_def
  onnx_save_def write_file_def makedirs_def Let_def


lemma convert_to_onnx_InrE:
  assumes run: "convert_to_onnx env a w = (Inr (), w')"
  obtains m m' where
    "convert_float_to_float16 env m True = Inr m'"
    "files w' = (files w)(resolve env ''unet/model.onnx'' \<mapsto> Graph m,
                          resolve env ''unet/model_fp16.onnx'' \<mapsto> Graph m')"
  using run unfolding exporter_defs
  by (auto split: sum.splits prod.splits if_splits option.splits content.splits)

lemma convert_to_onnx_success:
  assumes run: "convert_to_onnx env a w = (Inr (), w')"
  shows "\<exists>m m'. convert_float_to_float16 env m True = Inr m'
           \<and> files w' (resolve env ''unet/model_fp16.onnx'') = Some (Graph m')
           \<and> files w' (resolve env ''unet/model.onnx'') =
               (if resolve env ''unet/model.onnx'' = resolve env ''unet/model_fp16.onnx''
                then Some (Graph m') else Some (Graph m))"
proof -
  from run obtain m m' where
    c: "convert_float_to_float16 env m True = Inr m'" and
    w': "files w' = (files w)(resolve env ''unet/model.onnx'' \<mapsto> Graph m,
                              resolve env ''unet/model_fp16.onnx'' \<mapsto> Graph m')"
    by (rule convert_to_onnx_InrE)
  from w' have "files w' (resolve env ''unet/model_fp16.onnx'') = Some (Graph m')"
    and "files w' (resolve env ''unet/model.onnx'') =
               (if resolve env ''unet/model.onnx'' = resolve env ''unet/model_fp16.onnx''
                then Some (Graph m') else Some (Graph m))"
    by simp_all
  with c show ?thesis by blast
qed







lemma demo_export:
  "convert_to_onnx demo_env default_args empty_world =
     (Inr (),
      empty_world
        \<lparr>files := [''unet/model.onnx'' \<mapsto> Graph demo_graph,
                   ''unet/model_fp16.onnx'' \<mapsto> Graph (demo_graph\<lparr>graph_body := 6\<rparr>)],
         dirs := {''unet''}\<rparr>)"
  by (simp add: convert_to_onnx_def demo_check_inputs torch_onnx_export_def
      convert_float_to_float16_model_path_def onnx_save_def write_file_def makedirs_def
      path_exists_def demo_env_def empty_world_def demo_graph_def)


text \<open>
  C6. After a successful exporter run both graph files are on disk, and the
  reduced-precision file declares the same input and output element types as the
  full-precision file. The script's part is proved: it calls the converter on the file it
  has just written, with \<^verbatim>\<open>keep_io_types=True\<close>, and saves the converter's
  result unchanged. That the converter, so called, keeps the declared types is the
  converter's contract and is a hypothesis.
\<close>

theorem fp16_keeps_io_types:
  assumes run: "convert_to_onnx env a w = (Inr (), w')"
    and keep: "\<forall>m m'. convert_float_to_float16 env m True = Inr m' \<longrightarrow>
                 map snd (graph_inputs m') = map snd (graph_inputs m)
               \<and> map snd (graph_outputs m') = map snd (graph_outputs m)"
  shows "\<exists>full half.
           files w' (resolve env ''unet/model.onnx'') = Some (Graph full)
         \<and> files w' (resolve env ''unet/model_fp16.onnx'') = Some (Graph half)
         \<and> map snd (graph_inputs half) = map snd (graph_inputs full)
         \<and> map snd (graph_outputs half) = map snd (graph_outputs full)"
proof -
  from convert_to_onnx_success [OF run] obtain m m' where
    c: "convert_float_to_float16 env m True = Inr m'" and
    half: "files w' (resolve env ''unet/model_fp16.onnx'') = Some (Graph m')" and
    full: "files w' (resolve env ''unet/model.onnx'') =
               (if resolve env ''unet/model.onnx'' = resolve env ''unet/model_fp16.onnx''
                then Some (Graph m') else Some (Graph m))"
    by blast
  from keep c have io: "map snd (graph_inputs m') = map snd (graph_inputs m)
               \<and> map snd (graph_outputs m') = map snd (graph_outputs m)"
    by blast
  show ?thesis
  proof (cases "resolve env ''unet/model.onnx'' = resolve env ''unet/model_fp16.onnx''")
    case True
    with full half show ?thesis by simp
  next
    case False
    with full half io show ?thesis by simp
  qed
qed


theorem fp16_keeps_io_types_witness:
  "convert_to_onnx demo_env default_args empty_world =
     (Inr (),
      empty_world
        \<lparr>files := [''unet/model.onnx'' \<mapsto> Graph demo_graph,
                   ''unet/model_fp16.onnx'' \<mapsto> Graph (demo_graph\<lparr>graph_body := 6\<rparr>)],
         dirs := {''unet''}\<rparr>)
   \<and> (\<exists>full half.
         [''unet/model.onnx'' \<mapsto> Graph demo_graph,
          ''unet/model_fp16.onnx'' \<mapsto> Graph (demo_graph\<lparr>graph_body := 6\<rparr>)]
           (resolve demo_env ''unet/model.onnx'') = Some (Graph full)
       \<and> [''unet/model.onnx'' \<mapsto> Graph demo_graph,
          ''unet/model_fp16.onnx'' \<mapsto> Graph (demo_graph\<lparr>graph_body := 6\<rparr>)]
           (resolve demo_env ''unet/model_fp16.onnx'') = Some (Graph half)
       \<and> map snd (graph_inputs half) = map snd (graph_inputs full)
       \<and> map snd (graph_outputs half) = map snd (graph_outputs full))"
proof -
  have keep: "\<forall>m m'. convert_float_to_float16 demo_env m True = Inr m' \<longrightarrow>
                 map snd (graph_inputs m') = map snd (graph_inputs m)
               \<and> map snd (graph_outputs m') = map snd (graph_outputs m)"
    by (auto simp: demo_env_def)
  from fp16_keeps_io_types [OF demo_export keep] demo_export show ?thesis
    by simp
qed



subsection \<open>A build that returns nothing\<close>

text \<open>
  C9. When the graph parses, the configuration is built and the build step returns no
  serialized engine, then, the save path having been opened for binary writing, the
  compiler raises \<^verbatim>\<open>TypeError\<close> from the write (exit status 1) and the file
  at the save path is left on disk with no bytes in it.
\<close>

theorem failed_build_leaves_empty_file:
  assumes parse: "parse_graph env (push_bit (explicit_batch env) 1)
                    (files w (resolve env ''./unet/model.onnx'')) = (True, errs, network)"
    and config: "trt_builder_config env a = Inr config"
    and build: "build_serialized_network env network config = None"
    and opened: "may_write env (print_errors errs w) (save_path a)"
  shows "convert_to_trt env a w =
           (Inl TypeError,
            w\<lparr>stdout_buf := stdout_buf w @ errs,
              files := (files w)(resolve env (save_path a) \<mapsto> Blob [])\<rparr>)
       \<and> files (snd (convert_to_trt env a w)) (resolve env (save_path a)) = Some (Blob [])
       \<and> exit_status (fst (convert_to_trt env a w)) = 1"
proof -
  have "convert_to_trt env a w =
           (Inl TypeError,
            w\<lparr>stdout_buf := stdout_buf w @ errs,
              files := (files w)(resolve env (save_path a) \<mapsto> Blob [])\<rparr>)"
    using assms by (simp add: convert_to_trt_def save_engine_def print_errors_eq)
  then show ?thesis by simp
qed

theorem failed_build_leaves_empty_file_witness:
  "parse_graph demo_env (push_bit (explicit_batch demo_env) 1)
     (files (exported_world (demo_graph\<lparr>graph_body := 0\<rparr>)) (resolve demo_env ''./unet/model.onnx'')) =
     (True, [], 0)
   \<and> files (exported_world (demo_graph\<lparr>graph_body := 0\<rparr>)) ''unet.engine'' = None
   \<and> fst (convert_to_trt demo_env (default_args\<lparr>batch_size := 1\<rparr>)
            (exported_world (demo_graph\<lparr>graph_body := 0\<rparr>))) = Inl TypeError
   \<and> files (snd (convert_to_trt demo_env (default_args\<lparr>batch_size := 1\<rparr>)
                   (exported_world (demo_graph\<lparr>graph_body := 0\<rparr>)))) ''unet.engine'' =
       Some (Blob [])"
proof -
  have h1: "parse_graph demo_env (push_bit (explicit_batch demo_env) 1)
     (files (exported_world (demo_graph\<lparr>graph_body := 0\<rparr>)) (resolve demo_env ''./unet/model.onnx'')) =
     (True, [], 0)"
    by (simp add: demo_env_def exported_world_def empty_world_def)
  have h3: "build_serialized_network demo_env 0 cfg = None" for cfg
    by (simp add: demo_env_def)
  have h4: "may_write demo_env w p" for w p
    by (simp add: demo_env_def)
  have r: "resolve demo_env (save_path (default_args\<lparr>batch_size := 1\<rparr>)) = ''unet.engine''"
    by (simp add: demo_env_def default_args_def)
  have n: "files (exported_world (demo_graph\<lparr>graph_body := 0\<rparr>)) ''unet.engine'' = None"
    by (simp add: exported_world_def empty_world_def)
  from failed_build_leaves_empty_file [OF h1 demo_config [of 1] h3 h4] h1 n r
  show ?thesis by simp
qed

subsection \<open>The two flags declared without a type\<close>
















end
